theory Spec2Isabelle
  imports Main
begin

section \<open>Text\<close>

text \<open>
  The service is \<open>src/index.js\<close>. The file holds two revisions of the program, one
  after the other; the model is of the second (lines 211 to 423), the one with the
  readiness flag \<open>clientReady\<close> and the cached group id, which is the one the
  specification describes. JavaScript strings are modelled as \<open>string\<close>;
  a character outside ASCII stands as the bytes of its UTF-8 encoding, none of which
  is an ASCII digit, letter or slash, so the three regular expressions of the source
  (\<open>/[dD]\/(\d+)/\<close>, \<open>/^\+?\d+$/\<close> and \<open>/\D/g\<close>), which only name ASCII
  characters, read the same on both.
\<close>

definition is_digit :: "char \<Rightarrow> bool" where
  \<comment> \<open>the class \<open>\d\<close> of a JavaScript regular expression: \<open>0\<close> to \<open>9\<close>\<close>
  "is_digit c = (c \<in> set ''0123456789'')"

section \<open>Order Extractor\<close>

text \<open>
  \<open>msg.body.match(/[dD]\/(\d+)/)\<close>: the expression is tried at the first position
  of the text, then at the second, and so on; at a position it needs \<open>d\<close> or
  \<open>D\<close>, a slash, and then takes the digits that follow, as many as there are
  (\<open>+\<close> is greedy and nothing comes after it in the pattern), at least one.
  \<open>order_at\<close> is one attempt at the head of the text and gives the capture group;
  \<open>orderId_match\<close> is the search, \<open>None\<close> for the \<open>null\<close> of \<open>match\<close>,
  otherwise \<open>match[1]\<close>.
\<close>

fun order_at :: "string \<Rightarrow> string option" where
  "order_at (c # s # rest) =
     (if (c = CHR ''d'' \<or> c = CHR ''D'') \<and> s = CHR ''/'' \<and> takeWhile is_digit rest \<noteq> []
      then Some (takeWhile is_digit rest) else None)"
| "order_at _ = None"

fun orderId_match :: "string \<Rightarrow> string option" where
  "orderId_match [] = None"
| "orderId_match (c # cs) =
     (case order_at (c # cs) of
        Some ds \<Rightarrow> Some ds
      | None \<Rightarrow> orderId_match cs)"

text \<open>
  The pattern in the words of the specification: \<open>occurs_at s i n\<close> says that the
  \<open>n\<close> characters of \<open>s\<close> after positions \<open>i\<close> and \<open>i + 1\<close> are digits, that
  there is at least one, and that position \<open>i\<close> holds the letter and \<open>i + 1\<close> the slash.
\<close>

definition occurs_at :: "string \<Rightarrow> nat \<Rightarrow> nat \<Rightarrow> bool" where
  "occurs_at s i n =
     (i + 2 + n \<le> length s \<and> 0 < n \<and> (s ! i = CHR ''d'' \<or> s ! i = CHR ''D'') \<and>
      s ! (i + 1) = CHR ''/'' \<and> list_all is_digit (take n (drop (i + 2) s)))"

section \<open>Configuration and JavaScript values\<close>

text \<open>
  \<open>truthy\<close> is JavaScript's truthiness on a value that is either absent
  (\<open>null\<close> or \<open>undefined\<close>) or a string: the empty string is falsy.
  \<open>js_or a b\<close> is \<open>a || b\<close> with a string on the right.
\<close>

definition truthy :: "string option \<Rightarrow> bool" where
  "truthy v = (case v of None \<Rightarrow> False | Some s \<Rightarrow> s \<noteq> [])"

definition js_or :: "string option \<Rightarrow> string \<Rightarrow> string" where
  "js_or a b = (case a of None \<Rightarrow> b | Some s \<Rightarrow> if s \<noteq> [] then s else b)"

record config =
  GROUP_NAME :: string
  API_ENDPOINT :: string

definition load_config :: "(string \<Rightarrow> string option) \<Rightarrow> config" where
  \<comment> \<open>\<open>process.env.GROUP_NAME || "WEB CUNGS"\<close> and the same for the endpoint\<close>
  "load_config env =
     \<lparr> GROUP_NAME = js_or (env ''GROUP_NAME'') ''WEB CUNGS'',
       API_ENDPOINT = js_or (env ''API_ENDPOINT'') ''http://localhost:8000/api/orders/mark-as-done'' \<rparr>"

text \<open>The characters of the source's messages that are not ASCII, and two that a literal cannot hold.\<close>

definition arrow :: string where
  "arrow = [CHR 0xE2, CHR 0x86, CHR 0x92]"

definition check_mark :: string where
  "check_mark = [CHR 0xE2, CHR 0x9C, CHR 0x85]"

definition cross_mark :: string where
  "cross_mark = [CHR 0xE2, CHR 0x9D, CHR 0x8C]"

definition warning_sign :: string where
  "warning_sign = [CHR 0xE2, CHR 0x9A, CHR 0xA0, CHR 0xEF, CHR 0xB8, CHR 0x8F]"

definition dq :: string where
  "dq = [CHR 0x22]"

definition nl :: string where
  "nl = [CHR 0x0A]"

text \<open>
  \<open>String.prototype.toLowerCase\<close> is the engine's mapping over all of Unicode. The
  program only calls it, so the route that calls it takes it as an argument
  \<open>toLowerCase\<close>, and what is proved of the route holds for the engine's function.
  \<open>ascii_toLowerCase\<close> is that function on text whose letters are ASCII, where it
  changes \<open>A\<close> to \<open>Z\<close> and nothing else; the examples use it on such text.
\<close>

definition ascii_toLowerCase :: "string \<Rightarrow> string" where
  "ascii_toLowerCase s =
     map (\<lambda>c. case map_of (zip ''ABCDEFGHIJKLMNOPQRSTUVWXYZ'' ''abcdefghijklmnopqrstuvwxyz'') c of
                 Some l \<Rightarrow> l | None \<Rightarrow> c) s"

section \<open>The adapter's objects, the session state and what a handler does\<close>

text \<open>
  A rejected promise or a thrown exception is a value \<open>Inl e\<close>, where \<open>e\<close> has the
  \<open>message\<close> of a JavaScript \<open>Error\<close> and, for an axios error, what
  \<open>err.response?.data?.message\<close> reads (\<open>None\<close> when any link of that chain is
  undefined). The adapter and the HTTP client are outside the program: the outcome of
  each call to them is an argument of the handler that makes the call.
\<close>

record js_error =
  err_message :: string
  err_response_message :: "string option"

record chat =
  chat_name :: string
  chat_isGroup :: bool
  chat_id :: string

record wa_message =
  fromMe :: bool
  getChat :: "js_error + chat"
  body :: string
  author :: "string option"
  sender_from :: string
  timestamp :: nat

record order_payload =
  order_id :: string
  order_group :: string
  order_sender :: string
  order_message :: string
  order_timestamp :: nat

record session =
  latestQR :: "string option"
  clientReady :: bool
  groupChatInstance :: "chat option"
  cachedGroupId :: "string option"

definition initial_session :: session where
  "initial_session =
     \<lparr> latestQR = None, clientReady = False, groupChatInstance = None, cachedGroupId = None \<rparr>"

section \<open>Request bodies and the validation schema\<close>

text \<open>
  \<open>express.json()\<close> hands the handler the parsed request body: an object, here the list
  of its keys with their values, read with \<open>map_of\<close> (the empty list for a request
  without a body). A JSON number is kept as an integer; the schema accepts no number,
  so its value never matters.
\<close>

datatype json =
    JNull
  | JBool bool
  | JNumber int
  | JString string
  | JArray "json list"
  | JObject "(string \<times> json) list"

type_synonym json_object = "(string \<times> json) list"

text \<open>
  Joi is a library the program uses, not part of it. The definitions below give what
  Joi does with the features \<open>msgSchema\<close> is built from, under Joi's defaults:
  a \<open>Joi.string()\<close> key accepts a string that is not empty and passes the key's rules;
  an \<open>optional()\<close> key may be absent and a \<open>required()\<close> key may not;
  a \<open>Joi.object({...})\<close> accepts no key that the schema does not name;
  \<open>xor(a, b)\<close> needs exactly one of the peers present. Validation reports the first
  violation it finds (the keys in the schema's order, then unknown keys, then the peers)
  and otherwise returns the body as the value.
\<close>

datatype presence = Optional | Required

record string_schema =
  pattern :: "(string \<Rightarrow> bool) option"
  min_length :: "nat option"
  presence :: presence

record object_schema =
  schema_keys :: "(string \<times> string_schema) list"
  schema_xor :: "string list list"

datatype joi_error =
    AnyRequired string
  | StringBase string
  | StringEmpty string
  | StringPatternBase string
  | StringMin string
  | ObjectUnknown string
  | ObjectMissing "string list"
  | ObjectXor "string list"

definition validate_key :: "string \<Rightarrow> string_schema \<Rightarrow> json option \<Rightarrow> joi_error option" where
  "validate_key k sc v =
     (case v of
        None \<Rightarrow> if presence sc = Required then Some (AnyRequired k) else None
      | Some (JString s) \<Rightarrow>
          if s = [] then Some (StringEmpty k)
          else if (case pattern sc of Some p \<Rightarrow> \<not> p s | None \<Rightarrow> False) then Some (StringPatternBase k)
          else if (case min_length sc of Some n \<Rightarrow> length s < n | None \<Rightarrow> False) then Some (StringMin k)
          else None
      | Some _ \<Rightarrow> Some (StringBase k))"

definition validate_unknown :: "object_schema \<Rightarrow> json_object \<Rightarrow> joi_error option" where
  "validate_unknown sc b =
     (case filter (\<lambda>k. k \<notin> set (map fst (schema_keys sc))) (map fst b) of
        [] \<Rightarrow> None
      | k # _ \<Rightarrow> Some (ObjectUnknown k))"

definition validate_xor :: "json_object \<Rightarrow> string list \<Rightarrow> joi_error option" where
  "validate_xor b peers =
     (case filter (\<lambda>k. map_of b k \<noteq> None) peers of
        [] \<Rightarrow> Some (ObjectMissing peers)
      | [_] \<Rightarrow> None
      | _ \<Rightarrow> Some (ObjectXor peers))"

fun first_error :: "joi_error option list \<Rightarrow> joi_error option" where
  "first_error [] = None"
| "first_error (Some e # _) = Some e"
| "first_error (None # es) = first_error es"

definition validate :: "object_schema \<Rightarrow> json_object \<Rightarrow> joi_error + json_object" where
  "validate sc b =
     (case first_error
             (map (\<lambda>(k, r). validate_key k r (map_of b k)) (schema_keys sc)
              @ [validate_unknown sc b]
              @ map (validate_xor b) (schema_xor sc)) of
        Some e \<Rightarrow> Inl e
      | None \<Rightarrow> Inr b)"

definition number_pattern :: "string \<Rightarrow> bool" where
  \<comment> \<open>\<open>/^\+?\d+$/\<close>: an optional plus sign, then digits, at least one, up to the end\<close>
  "number_pattern s =
     (case s of
        [] \<Rightarrow> False
      | c # t \<Rightarrow> if c = CHR ''+'' then t \<noteq> [] \<and> list_all is_digit t
                 else list_all is_digit (c # t))"

definition msgSchema :: object_schema where
  "msgSchema =
     \<lparr> schema_keys =
         [(''number'', \<lparr> pattern = Some number_pattern, min_length = None, presence = Optional \<rparr>),
          (''groupTitle'', \<lparr> pattern = None, min_length = None, presence = Optional \<rparr>),
          (''message'', \<lparr> pattern = None, min_length = Some 1, presence = Required \<rparr>)],
       schema_xor = [[''number'', ''groupTitle'']] \<rparr>"

definition str_field :: "json_object \<Rightarrow> string \<Rightarrow> string option" where
  \<comment> \<open>one variable of \<open>const { number, groupTitle, message } = value\<close>: after validation
      each of the three is undefined or a string\<close>
  "str_field v k = (case map_of v k of Some (JString s) \<Rightarrow> Some s | _ \<Rightarrow> None)"

section \<open>Effects\<close>

text \<open>
  What a handler does to the world, in the order in which it does it: console output
  (the arguments of the call), calls to the adapter and to the order API, timers, and
  the HTTP response with its status and body.
\<close>

datatype response_body =
    Text string
  | StatusJson bool bool "string option"
  | ValidationFailure joi_error
  | Failure string
  | Accepted string

datatype effect =
    ConsoleLog "string list"
  | ConsoleWarn "string list"
  | ConsoleError "string list"
  | UnhandledRejection js_error
  | MsgGetChat
  | ClientGetChats
  | ClientGetState
  | AxiosPost string order_payload
  | ChatSendMessage chat string
  | ClientSendMessage string "string option"
  | ClientDestroy
  | ClientInitialize
  | SetTimeout "effect list" nat
  | Respond nat response_body

fun is_Respond :: "effect \<Rightarrow> bool" where
  "is_Respond (Respond _ _) = True"
| "is_Respond _ = False"

fun is_AxiosPost :: "effect \<Rightarrow> bool" where
  "is_AxiosPost (AxiosPost _ _) = True"
| "is_AxiosPost _ = False"

fun is_ChatSendMessage :: "effect \<Rightarrow> bool" where
  "is_ChatSendMessage (ChatSendMessage _ _) = True"
| "is_ChatSendMessage _ = False"

fun is_ClientSendMessage :: "effect \<Rightarrow> bool" where
  "is_ClientSendMessage (ClientSendMessage _ _) = True"
| "is_ClientSendMessage _ = False"

section \<open>Adapter event handlers\<close>

text \<open>
  Each handler is a function from the session state and the outcomes of the calls it
  awaits to the state it leaves and the effects it has, in order. Between two
  \<open>await\<close>s a handler runs without interruption; at an \<open>await\<close> other handlers may
  run. The \<open>ready\<close> handler writes the session on both sides of its \<open>await\<close>, so it
  is two steps, \<open>on_ready\<close> and \<open>on_ready_chats\<close>, and any events may come between
  them. Every other handler reads and writes the session on one side of its
  \<open>await\<close>s only and is one step, placed where it touches the session.
\<close>

definition on_qr :: "session \<Rightarrow> js_error + string \<Rightarrow> session \<times> effect list" where
  \<comment> \<open>the argument is the outcome of \<open>toDataURL(qr)\<close> and the step is the handler's
      resumption with it; when it rejects the assignment is not reached and nothing
      catches the error (a runtime that ends the process on an unhandled rejection
      handles no event after it)\<close>
  "on_qr s r =
     (case r of
        Inl e \<Rightarrow> (s, [UnhandledRejection e])
      | Inr url \<Rightarrow>
          (s\<lparr>latestQR := Some url\<rparr>, [ConsoleLog [''[WA-BOT] QR code received. Scan via /qr'']]))"

definition on_ready :: "session \<Rightarrow> session \<times> effect list" where
  \<comment> \<open>the \<open>ready\<close> handler up to \<open>await client.getChats()\<close>, where it is suspended\<close>
  "on_ready s =
     (s\<lparr>clientReady := True\<rparr>,
      [ConsoleLog [''[WA-BOT] WhatsApp client is ready''], ClientGetChats])"

definition on_ready_chats :: "config \<Rightarrow> session \<Rightarrow> js_error + chat list \<Rightarrow> session \<times> effect list" where
  \<comment> \<open>the rest of the \<open>ready\<close> handler, run when \<open>client.getChats()\<close> has settled with
      the outcome given; it reads and writes the session as it is by then\<close>
  "on_ready_chats cfg s r =
     (case r of
        Inl e \<Rightarrow> (s, [ConsoleError [''[WA-BOT] Error fetching group chats:'', err_message e]])
      | Inr chats \<Rightarrow>
          (case find (\<lambda>c. chat_name c = GROUP_NAME cfg) chats of
             Some g \<Rightarrow>
               (s\<lparr>groupChatInstance := Some g, cachedGroupId := Some (chat_id g)\<rparr>,
                [ConsoleLog [''[WA-BOT] Group '' @ dq @ GROUP_NAME cfg @ dq @ '' found and cached'']])
           | None \<Rightarrow>
               (s, [ConsoleWarn [''[WA-BOT] Group '' @ dq @ GROUP_NAME cfg @ dq @ '' not found'']])))"

definition notifyGroup :: "session \<Rightarrow> string \<Rightarrow> js_error + unit \<Rightarrow> effect list \<times> effect list" where
  \<comment> \<open>the callers do not await it: the first list is the call it makes at once, the
      second what it does when the call has failed\<close>
  "notifyGroup s text r =
     (case groupChatInstance s of
        None \<Rightarrow> ([], [])
      | Some g \<Rightarrow>
          ([ChatSendMessage g text],
           case r of
             Inl e \<Rightarrow> [ConsoleError [''[WA-BOT] Failed to notify group:'', err_message e]]
           | Inr _ \<Rightarrow> []))"

definition on_auth_failure :: "session \<Rightarrow> string \<Rightarrow> js_error + unit \<Rightarrow> session \<times> effect list" where
  "on_auth_failure s msg r =
     (let s1 = s\<lparr>clientReady := False\<rparr>;
          n = notifyGroup s1 (warning_sign @ '' Sesi WhatsApp berakhir. Silakan scan ulang QR Code.'') r
      in (s1, [ConsoleError [''[WA-BOT] AUTH FAILURE:'', msg]] @ fst n
              @ [ClientDestroy, ClientInitialize] @ snd n))"

definition on_disconnected :: "session \<Rightarrow> string \<Rightarrow> js_error + unit \<Rightarrow> session \<times> effect list" where
  "on_disconnected s reason r =
     (let s1 = s\<lparr>clientReady := False\<rparr>;
          n = notifyGroup s1 (warning_sign @ '' WhatsApp terputus. Mencoba menyambung kembali...'') r
      in (s1, [ConsoleWarn [''[WA-BOT] Disconnected:'', reason]] @ fst n
              @ [SetTimeout [ClientDestroy, ClientInitialize] 5000] @ snd n))"

subsection \<open>Incoming messages\<close>

definition api_error_text :: "js_error \<Rightarrow> string" where
  \<comment> \<open>\<open>err.response?.data?.message || err.message\<close>\<close>
  "api_error_text err = js_or (err_response_message err) (err_message err)"

definition notify_order ::
  "config \<Rightarrow> chat \<Rightarrow> order_payload \<Rightarrow> string \<Rightarrow> js_error + unit \<Rightarrow> js_error + unit \<Rightarrow> effect list" where
  \<comment> \<open>the inner \<open>try\<close> with its \<open>catch\<close>; the last two arguments are the outcomes of
      \<open>axios.post\<close> and of \<open>chat.sendMessage\<close>\<close>
  "notify_order cfg c payload orderId post_result send_result =
     (case post_result of
        Inl err \<Rightarrow>
          [AxiosPost (API_ENDPOINT cfg) payload,
           ConsoleError [''[WA-BOT] API Error:'', api_error_text err]]
      | Inr _ \<Rightarrow>
          [AxiosPost (API_ENDPOINT cfg) payload,
           ChatSendMessage c (check_mark @ '' Order ID '' @ orderId @ '' telah diproses.'')]
          @ (case send_result of
               Inl err \<Rightarrow> [ConsoleError [''[WA-BOT] API Error:'', api_error_text err]]
             | Inr _ \<Rightarrow> []))"

definition on_message_try ::
  "config \<Rightarrow> wa_message \<Rightarrow> js_error + unit \<Rightarrow> js_error + unit \<Rightarrow> effect list \<times> js_error option" where
  \<comment> \<open>the outer \<open>try\<close> block: its effects and the error it throws, if any\<close>
  "on_message_try cfg msg post_result send_result =
     (if fromMe msg then ([], None)
      else case getChat msg of
        Inl e \<Rightarrow> ([MsgGetChat], Some e)
      | Inr c \<Rightarrow>
          if \<not> chat_isGroup c \<or> chat_name c \<noteq> GROUP_NAME cfg then ([MsgGetChat], None)
          else case orderId_match (body msg) of
            None \<Rightarrow> ([MsgGetChat], None)
          | Some orderId \<Rightarrow>
              ([MsgGetChat, ConsoleLog [arrow @ '' Detected order ID: '' @ orderId]]
               @ notify_order cfg c
                   \<lparr> order_id = orderId, order_group = GROUP_NAME cfg,
                     order_sender = js_or (author msg) (sender_from msg),
                     order_message = body msg, order_timestamp = timestamp msg \<rparr>
                   orderId post_result send_result,
               None))"

definition on_message ::
  "config \<Rightarrow> wa_message \<Rightarrow> js_error + unit \<Rightarrow> js_error + unit \<Rightarrow> effect list \<times> js_error option" where
  \<comment> \<open>the handler: the block above under its \<open>catch\<close>; the second component is the
      error the handler itself ends with\<close>
  "on_message cfg msg post_result send_result =
     (case on_message_try cfg msg post_result send_result of
        (t, None) \<Rightarrow> (t, None)
      | (t, Some err) \<Rightarrow> (t @ [ConsoleError [''[WA-BOT] Message handler error:'', err_message err]], None))"

subsection \<open>The session as a state machine\<close>

datatype event =
    Qr "js_error + string"
  | Ready
  | ReadyChats "js_error + chat list"
  | AuthFailure string "js_error + unit"
  | Disconnected string "js_error + unit"
  | Message wa_message "js_error + unit" "js_error + unit"
  | ReconnectTimer
  | KeepAlive

fun handle :: "config \<Rightarrow> session \<Rightarrow> event \<Rightarrow> session \<times> effect list" where
  "handle cfg s (Qr r) = on_qr s r"
| "handle cfg s Ready = on_ready s"
| "handle cfg s (ReadyChats r) = on_ready_chats cfg s r"
| "handle cfg s (AuthFailure msg r) = on_auth_failure s msg r"
| "handle cfg s (Disconnected reason r) = on_disconnected s reason r"
| "handle cfg s (Message msg p r) = (s, fst (on_message cfg msg p r))"
| "handle cfg s ReconnectTimer = (s, [ClientDestroy, ClientInitialize])"
| "handle cfg s KeepAlive = (s, [ClientGetState])"

fun run :: "config \<Rightarrow> session \<Rightarrow> event list \<Rightarrow> session" where
  "run cfg s [] = s"
| "run cfg s (e # es) = run cfg (fst (handle cfg s e)) es"

fun is_Ready :: "event \<Rightarrow> bool" where
  "is_Ready Ready = True"
| "is_Ready _ = False"

fun is_ReadyChats :: "event \<Rightarrow> bool" where
  "is_ReadyChats (ReadyChats _) = True"
| "is_ReadyChats _ = False"

section \<open>HTTP routes\<close>

definition qr_page :: "string \<Rightarrow> string" where
  "qr_page url =
     nl @ ''    <html>'' @ nl
     @ ''      <body style='' @ dq
     @ ''display:flex;justify-content:center;align-items:center;height:100vh;flex-direction:column;''
     @ dq @ ''>'' @ nl
     @ ''        <h2>Scan QR WhatsApp</h2>'' @ nl
     @ ''        <img src='' @ dq @ url @ dq @ '' style='' @ dq @ ''width:300px;height:300px;'' @ dq @ '' />'' @ nl
     @ ''      </body>'' @ nl
     @ ''    </html>'' @ nl @ ''  ''"

definition get_qr :: "session \<Rightarrow> effect list" where
  \<comment> \<open>\<open>!latestQR\<close> holds of \<open>null\<close> and of the empty string\<close>
  "get_qr s =
     (case latestQR s of
        None \<Rightarrow> [Respond 200 (Text ''QR belum tersedia'')]
      | Some url \<Rightarrow>
          if url = [] then [Respond 200 (Text ''QR belum tersedia'')]
          else [Respond 200 (Text (qr_page url))])"

definition get_health :: "effect list" where
  "get_health = [Respond 200 (Text ''OK'')]"

definition get_status :: "session \<Rightarrow> string option \<Rightarrow> effect list" where
  \<comment> \<open>the second argument is \<open>client.info\<close>, absent (\<open>null\<close> in the answer) or rendered\<close>
  "get_status s info = [Respond 200 (StatusJson (clientReady s) (truthy (cachedGroupId s)) info)]"

definition resolve_chatId ::
  "(string \<Rightarrow> string) \<Rightarrow> config \<Rightarrow> session \<Rightarrow> json_object \<Rightarrow> string option" where
  \<comment> \<open>the \<open>if\<close> chain that sets \<open>chatId\<close>; \<open>None\<close> is its last branch, the 404\<close>
  "resolve_chatId toLowerCase cfg s v =
     (let number = str_field v ''number''; groupTitle = str_field v ''groupTitle''
      in if truthy number then map_option (\<lambda>n. filter is_digit n @ ''@c.us'') number
         else if map_option toLowerCase groupTitle = Some (toLowerCase (GROUP_NAME cfg))
                 \<and> truthy (cachedGroupId s)
         then cachedGroupId s
         else None)"

definition post_send_message ::
  "(string \<Rightarrow> string) \<Rightarrow> config \<Rightarrow> session \<Rightarrow> json_object \<Rightarrow> js_error + unit \<Rightarrow> effect list" where
  \<comment> \<open>the last argument is the outcome of \<open>client.sendMessage(chatId, message)\<close>\<close>
  "post_send_message toLowerCase cfg s b send_result =
     (case validate msgSchema b of
        Inl e \<Rightarrow> [Respond 400 (ValidationFailure e)]
      | Inr v \<Rightarrow>
          if \<not> clientReady s then [Respond 503 (Failure ''WhatsApp client not ready'')]
          else case resolve_chatId toLowerCase cfg s v of
            None \<Rightarrow> [Respond 404 (Failure ''Group not cached or unknown groupTitle'')]
          | Some chatId \<Rightarrow>
              [Respond 200 (Accepted chatId), ClientSendMessage chatId (str_field v ''message'')]
              @ (case send_result of
                   Inr _ \<Rightarrow> [ConsoleLog [check_mark @ '' Message sent to '' @ chatId]]
                 | Inl err \<Rightarrow>
                     [ConsoleError [cross_mark @ '' Failed to send message to '' @ chatId @ '':'',
                                    err_message err]]))"

section \<open>The specification's notions\<close>

text \<open>
  \<open>first_order s ds\<close>: \<open>ds\<close> is the digit sequence of the first substring of \<open>s\<close>
  that matches the pattern: an occurrence starts at some position, no occurrence starts
  before it, and no occurrence at that position has more digits.
\<close>

definition first_order :: "string \<Rightarrow> string \<Rightarrow> bool" where
  "first_order s ds =
     (\<exists>i. occurs_at s i (length ds) \<and> ds = take (length ds) (drop (i + 2) s) \<and>
          (\<forall>j n. occurs_at s j n \<longrightarrow> i \<le> j \<and> (j = i \<longrightarrow> n \<le> length ds)))"

text \<open>
  The body of a send-message request as the specification describes a valid one:
  exactly one of \<open>number\<close> and \<open>groupTitle\<close> is present, a \<open>number\<close> is a string
  of the pattern, a \<open>groupTitle\<close> is a non-empty string, and \<open>message\<close> is present
  and a non-empty string. \<open>only_schema_keys\<close> says that the body has no other key.
\<close>

definition present :: "json_object \<Rightarrow> string \<Rightarrow> bool" where
  "present b k = (map_of b k \<noteq> None)"

definition string_where :: "(string \<Rightarrow> bool) \<Rightarrow> json option \<Rightarrow> bool" where
  "string_where P v = (case v of Some (JString s) \<Rightarrow> P s | _ \<Rightarrow> False)"

definition body_wellformed :: "json_object \<Rightarrow> bool" where
  "body_wellformed b =
     ((present b ''number'' \<noteq> present b ''groupTitle'') \<and>
      (present b ''number'' \<longrightarrow> string_where number_pattern (map_of b ''number'')) \<and>
      (present b ''groupTitle'' \<longrightarrow> string_where (\<lambda>t. t \<noteq> []) (map_of b ''groupTitle'')) \<and>
      string_where (\<lambda>m. m \<noteq> []) (map_of b ''message''))"

definition only_schema_keys :: "json_object \<Rightarrow> bool" where
  "only_schema_keys b = list_all (\<lambda>k. k \<in> set [''number'', ''groupTitle'', ''message'']) (map fst b)"

text \<open>
  \<open>latest_url u es\<close>: the image most recently cached when \<open>u\<close> was cached and the events
  \<open>es\<close> followed. \<open>dataurl_ok\<close>: a QR image that was rendered is a data URL, which is
  never the empty string.
\<close>

fun latest_url :: "string \<Rightarrow> event list \<Rightarrow> string" where
  "latest_url u [] = u"
| "latest_url u (Qr (Inr v) # es) = latest_url v es"
| "latest_url u (_ # es) = latest_url u es"

fun dataurl_ok :: "event \<Rightarrow> bool" where
  "dataurl_ok (Qr (Inr u)) = (u \<noteq> [])"
| "dataurl_ok _ = True"

text \<open>Concrete values for the examples: the configuration without environment variables,
  the configured group as the adapter lists it, and a session that is ready with that
  group cached.\<close>

definition default_config :: config where
  "default_config = load_config (\<lambda>_. None)"

definition web_cungs :: chat where
  "web_cungs = \<lparr> chat_name = ''WEB CUNGS'', chat_isGroup = True, chat_id = ''120363041234567890@g.us'' \<rparr>"

definition ready_session :: session where
  "ready_session = run default_config initial_session [Ready, ReadyChats (Inr [web_cungs])]"

definition net_error :: js_error where
  "net_error = \<lparr> err_message = ''connect ECONNREFUSED 127.0.0.1:8000'', err_response_message = None \<rparr>"

definition order_msg :: wa_message where
  "order_msg =
     \<lparr> fromMe = False, getChat = Inr web_cungs, body = ''Please confirm d/482 thanks'',
       author = Some ''6281234567@c.us'', sender_from = ''120363041234567890@g.us'',
       timestamp = 1700000000 \<rparr>"

definition family_chat :: chat where
  "family_chat = \<lparr> chat_name = ''Family'', chat_isGroup = True, chat_id = ''120363049999999999@g.us'' \<rparr>"

definition stray_msg :: wa_message where
  "stray_msg = order_msg\<lparr>getChat := Inr family_chat\<rparr>"

definition own_msg :: wa_message where
  "own_msg = order_msg\<lparr>fromMe := True\<rparr>"

section \<open>The Order Extractor finds the first order reference\<close>

lemma occurs_at_Suc: "occurs_at (c # cs) (Suc i) n = occurs_at cs i n"
  by (simp add: occurs_at_def)

lemma takeWhile_take_length: "takeWhile P xs = take (length (takeWhile P xs)) xs"
  by (induction xs) auto

lemma list_all_take_le_takeWhile:
  "list_all P (take n xs) \<Longrightarrow> n \<le> length xs \<Longrightarrow> n \<le> length (takeWhile P xs)"
proof (induction xs arbitrary: n)
  case Nil then show ?case by simp
next
  case (Cons x xs)
  then show ?case by (cases n) auto
qed

lemma order_at_None: "order_at s = None \<Longrightarrow> \<not> occurs_at s 0 n"
proof (cases s rule: order_at.cases)
  case (1 c sl rest)
  assume h: "order_at s = None"
  show ?thesis
  proof
    assume o: "occurs_at s 0 n"
    with 1 have a: "(c = CHR ''d'' \<or> c = CHR ''D'') \<and> sl = CHR ''/''" and b: "0 < n" "n \<le> length rest"
      and c: "list_all is_digit (take n rest)"
      by (auto simp: occurs_at_def)
    from c b have "n \<le> length (takeWhile is_digit rest)" by (simp add: list_all_take_le_takeWhile)
    with b have "takeWhile is_digit rest \<noteq> []" by auto
    with a h 1 show False by simp
  qed
qed (auto simp: occurs_at_def)

lemma order_at_Some:
  assumes "order_at s = Some ds"
  shows "ds \<noteq> []" "list_all is_digit ds" "occurs_at s 0 (length ds)"
    "ds = take (length ds) (drop 2 s)" "occurs_at s 0 n \<Longrightarrow> n \<le> length ds"
proof -
  obtain c sl rest where s: "s = c # sl # rest"
    using assms by (cases s rule: order_at.cases) auto
  from assms s have g: "(c = CHR ''d'' \<or> c = CHR ''D'')" "sl = CHR ''/''"
    and ds: "ds = takeWhile is_digit rest" and ne: "ds \<noteq> []"
    by (auto split: if_splits)
  show "ds \<noteq> []" by (rule ne)
  show d: "list_all is_digit ds" unfolding ds list_all_iff by (auto dest: set_takeWhileD)
  have t: "ds = take (length ds) rest" unfolding ds by (rule takeWhile_take_length)
  then show "ds = take (length ds) (drop 2 s)" by (simp add: s)
  have "length ds \<le> length rest" unfolding ds by (rule length_takeWhile_le)
  with g ne d t show "occurs_at s 0 (length ds)" by (simp add: occurs_at_def s)
  show "occurs_at s 0 n \<Longrightarrow> n \<le> length ds"
    unfolding ds by (auto simp: occurs_at_def s intro: list_all_take_le_takeWhile)
qed

lemma orderId_match_None: "orderId_match s = None \<Longrightarrow> \<not> occurs_at s i n"
proof (induction s arbitrary: i)
  case Nil then show ?case by (simp add: occurs_at_def)
next
  case (Cons c cs)
  then have a: "order_at (c # cs) = None" and b: "orderId_match cs = None"
    by (auto split: option.splits)
  show ?case
  proof (cases i)
    case 0 with a show ?thesis by (simp add: order_at_None)
  next
    case (Suc k) with Cons.IH[OF b] show ?thesis by (simp add: occurs_at_Suc)
  qed
qed

lemma orderId_match_Some: "orderId_match s = Some ds \<Longrightarrow> first_order s ds"
proof (induction s)
  case Nil then show ?case by simp
next
  case (Cons c cs)
  show ?case
  proof (cases "order_at (c # cs)")
    case (Some e)
    with Cons.prems have e: "e = ds" by simp
    note f = order_at_Some[OF Some[unfolded e]]
    show ?thesis unfolding first_order_def
    proof (intro exI[of _ 0] conjI allI impI)
      show "occurs_at (c # cs) 0 (length ds)" by (rule f(3))
      show "ds = take (length ds) (drop (0 + 2) (c # cs))" using f(4) by simp
    next
      fix j n assume "occurs_at (c # cs) j n" and "j = 0"
      then show "n \<le> length ds" using f(5) by simp
    qed simp
  next
    case None
    with Cons.prems have "orderId_match cs = Some ds" by simp
    from Cons.IH[OF this] obtain i where i: "occurs_at cs i (length ds)"
      "ds = take (length ds) (drop (i + 2) cs)"
      "\<And>j n. occurs_at cs j n \<Longrightarrow> i \<le> j \<and> (j = i \<longrightarrow> n \<le> length ds)"
      unfolding first_order_def by blast
    show ?thesis unfolding first_order_def
    proof (intro exI[of _ "Suc i"] conjI allI impI)
      show "occurs_at (c # cs) (Suc i) (length ds)" using i(1) by (simp add: occurs_at_Suc)
      show "ds = take (length ds) (drop (Suc i + 2) (c # cs))" using i(2) by simp
    next
      fix j n assume o: "occurs_at (c # cs) j n"
      then obtain k where k: "j = Suc k" using order_at_None[OF None] by (cases j) auto
      with o have "occurs_at cs k n" by (simp add: occurs_at_Suc)
      from i(3)[OF this] k show "Suc i \<le> j" by simp
      { assume "j = Suc i"
        with k i(3)[OF \<open>occurs_at cs k n\<close>] show "n \<le> length ds" by simp }
    qed
  qed
qed

text \<open>
  Claim C1. For every message text, the Order Extractor returns the digits of the first
  substring of the form \<open>d/<digits>\<close> (the letter in either case), when there is one,
  and no match when there is none; what it returns is a non-empty string of digits.
\<close>

theorem orderId_match_first:
  "(case orderId_match s of
      None \<Rightarrow> \<forall>i n. \<not> occurs_at s i n
    | Some ds \<Rightarrow> ds \<noteq> [] \<and> list_all is_digit ds \<and> first_order s ds)"
proof (cases "orderId_match s")
  case None
  then show ?thesis by (simp add: orderId_match_None)
next
  case (Some ds)
  then have f: "first_order s ds" by (rule orderId_match_Some)
  then obtain i where i: "occurs_at s i (length ds)" "ds = take (length ds) (drop (i + 2) s)"
    unfolding first_order_def by blast
  from i(1) have "ds \<noteq> []" by (auto simp: occurs_at_def)
  moreover from i have "list_all is_digit ds" by (simp add: occurs_at_def)
  ultimately show ?thesis using Some f by simp
qed

theorem orderId_match_first_witness:
  "orderId_match ''Please confirm d/482 thanks'' = Some ''482'' \<and>
   first_order ''Please confirm d/482 thanks'' ''482'' \<and>
   orderId_match ''D/00921 extra'' = Some ''00921'' \<and>
   first_order ''D/00921 extra'' ''00921'' \<and>
   orderId_match ''no id here'' = None \<and>
   \<not> occurs_at ''no id here'' 0 1"
  using orderId_match_first [of "''Please confirm d/482 thanks''"]
    orderId_match_first [of "''D/00921 extra''"]
    orderId_match_first [of "''no id here''"]
  by (simp add: is_digit_def)

section \<open>What the schema accepts\<close>

lemma first_error_None: "first_error es = None \<longleftrightarrow> (\<forall>e \<in> set es. e = None)"
  by (induction es rule: first_error.induct) auto

lemma number_pattern_nonempty: "number_pattern s \<Longrightarrow> s \<noteq> []"
  by (auto simp: number_pattern_def)

lemma number_key_ok:
  "validate_key k \<lparr> pattern = Some number_pattern, min_length = None, presence = Optional \<rparr> v = None
     \<longleftrightarrow> (v = None \<or> string_where number_pattern v)"
  by (auto simp: validate_key_def string_where_def number_pattern_nonempty
           split: option.splits json.splits)

lemma title_key_ok:
  "validate_key k \<lparr> pattern = None, min_length = None, presence = Optional \<rparr> v = None
     \<longleftrightarrow> (v = None \<or> string_where (\<lambda>t. t \<noteq> []) v)"
  by (auto simp: validate_key_def string_where_def split: option.splits json.splits)

lemma message_key_ok:
  "validate_key k \<lparr> pattern = None, min_length = Some (Suc 0), presence = Required \<rparr> v = None
     \<longleftrightarrow> string_where (\<lambda>m. m \<noteq> []) v"
  by (auto simp: validate_key_def string_where_def split: option.splits json.splits)

lemma unknown_ok: "validate_unknown msgSchema b = None \<longleftrightarrow> only_schema_keys b"
proof -
  have "validate_unknown msgSchema b = None \<longleftrightarrow>
        filter (\<lambda>k. k \<notin> set (map fst (schema_keys msgSchema))) (map fst b) = []"
    by (simp add: validate_unknown_def split: list.splits)
  also have "\<dots> \<longleftrightarrow> only_schema_keys b"
    by (simp add: filter_empty_conv msgSchema_def only_schema_keys_def list_all_iff)
  finally show ?thesis .
qed

lemma xor_ok:
  "validate_xor b [''number'', ''groupTitle''] = None
     \<longleftrightarrow> (present b ''number'' \<noteq> present b ''groupTitle'')"
  by (auto simp: validate_xor_def present_def split: list.splits)

lemma validate_msgSchema_ok:
  "(\<exists>v. validate msgSchema b = Inr v) \<longleftrightarrow> body_wellformed b \<and> only_schema_keys b"
proof -
  have "(\<exists>v. validate msgSchema b = Inr v) \<longleftrightarrow>
        first_error (map (\<lambda>(k, r). validate_key k r (map_of b k)) (schema_keys msgSchema)
              @ [validate_unknown msgSchema b]
              @ map (validate_xor b) (schema_xor msgSchema)) = None"
    by (auto simp: validate_def split: option.splits)
  also have "\<dots> \<longleftrightarrow>
     (map_of b ''number'' = None \<or> string_where number_pattern (map_of b ''number'')) \<and>
     (map_of b ''groupTitle'' = None \<or> string_where (\<lambda>t. t \<noteq> []) (map_of b ''groupTitle'')) \<and>
     string_where (\<lambda>m. m \<noteq> []) (map_of b ''message'') \<and>
     only_schema_keys b \<and> (present b ''number'' \<noteq> present b ''groupTitle'')"
    unfolding first_error_None
    by (simp add: msgSchema_def number_key_ok title_key_ok message_key_ok
          unknown_ok[unfolded msgSchema_def, simplified] xor_ok)
  also have "\<dots> \<longleftrightarrow> body_wellformed b \<and> only_schema_keys b"
    by (auto simp: body_wellformed_def present_def)
  finally show ?thesis .
qed

lemma validate_value: "validate sc b = Inr v \<Longrightarrow> v = b"
  by (auto simp: validate_def split: option.splits)

lemma validate_msgSchema_Inr:
  "validate msgSchema b = Inr v \<longleftrightarrow> v = b \<and> body_wellformed b \<and> only_schema_keys b"
  using validate_msgSchema_ok[of b] validate_value[of msgSchema b] by auto

lemma validate_msgSchema_Inl:
  "(\<exists>e. validate msgSchema b = Inl e) \<longleftrightarrow> \<not> (body_wellformed b \<and> only_schema_keys b)"
  using validate_msgSchema_ok[of b] by (cases "validate msgSchema b") auto

section \<open>The send-message route\<close>

lemma post_send_message_statuses:
  "validate msgSchema b = Inr v \<Longrightarrow> Respond 400 x \<notin> set (post_send_message toLowerCase cfg s b r)"
  by (auto simp: post_send_message_def split: option.splits sum.splits)

lemma str_field_number:
  "map_of b ''number'' = Some (JString n) \<Longrightarrow> str_field b ''number'' = Some n"
  by (simp add: str_field_def)

lemma group_only:
  assumes "validate msgSchema b = Inr v" and "map_of b ''groupTitle'' = Some (JString t)"
  shows "str_field b ''number'' = None" and "str_field b ''groupTitle'' = Some t"
proof -
  from assms(1) have "body_wellformed b" by (simp add: validate_msgSchema_Inr)
  with assms(2) have "map_of b ''number'' = None"
    by (auto simp: body_wellformed_def present_def)
  then show "str_field b ''number'' = None" by (simp add: str_field_def)
  show "str_field b ''groupTitle'' = Some t" using assms(2) by (simp add: str_field_def)
qed

text \<open>
  Claim C8. When the body of a send-message request passes validation and the adapter is
  not ready, the response is 503 and nothing else happens: no message is dispatched.
  Validation comes first: a body that fails it is answered with 400, whether the
  adapter is ready or not.
\<close>

theorem send_message_not_ready:
  "(validate msgSchema b = Inr v \<longrightarrow> \<not> clientReady s \<longrightarrow>
      post_send_message toLowerCase cfg s b r = [Respond 503 (Failure ''WhatsApp client not ready'')] \<and>
      filter is_ClientSendMessage (post_send_message toLowerCase cfg s b r) = []) \<and>
   (validate msgSchema b = Inl e \<longrightarrow>
      post_send_message toLowerCase cfg s b r = [Respond 400 (ValidationFailure e)] \<and>
      filter is_ClientSendMessage (post_send_message toLowerCase cfg s b r) = [])"
  by (simp add: post_send_message_def)

theorem send_message_not_ready_witness:
  "validate msgSchema [(''number'', JString ''+62812345''), (''message'', JString ''hi'')]
     = Inr [(''number'', JString ''+62812345''), (''message'', JString ''hi'')] \<and>
   \<not> clientReady initial_session \<and>
   post_send_message ascii_toLowerCase default_config initial_session
     [(''number'', JString ''+62812345''), (''message'', JString ''hi'')] (Inr ())
     = [Respond 503 (Failure ''WhatsApp client not ready'')] \<and>
   validate msgSchema [(''number'', JString ''+62812345'')] = Inl (AnyRequired ''message'') \<and>
   post_send_message ascii_toLowerCase default_config initial_session [(''number'', JString ''+62812345'')] (Inr ())
     = [Respond 400 (ValidationFailure (AnyRequired ''message''))]"
proof -
  have v: "validate msgSchema [(''number'', JString ''+62812345''), (''message'', JString ''hi'')]
     = Inr [(''number'', JString ''+62812345''), (''message'', JString ''hi'')]"
    by code_simp
  have n: "\<not> clientReady initial_session" by (simp add: initial_session_def)
  have i: "validate msgSchema [(''number'', JString ''+62812345'')] = Inl (AnyRequired ''message'')"
    by code_simp
  show ?thesis
    using v n i
      send_message_not_ready [where b = "[(''number'', JString ''+62812345''), (''message'', JString ''hi'')]"
        and v = "[(''number'', JString ''+62812345''), (''message'', JString ''hi'')]"
        and s = initial_session and cfg = default_config and toLowerCase = ascii_toLowerCase and r = "Inr ()"
        and e = "AnyRequired ''message''"]
      send_message_not_ready [where b = "[(''number'', JString ''+62812345'')]"
        and v = "[]" and s = initial_session and cfg = default_config and toLowerCase = ascii_toLowerCase and r = "Inr ()"
        and e = "AnyRequired ''message''"]
    by simp
qed

text \<open>
  Claim C7, as stated: the route answers 400 exactly when the body is not one with exactly
  one of \<open>number\<close> (a string of the pattern) and \<open>groupTitle\<close> (a non-empty string)
  and with a non-empty \<open>message\<close>. It does not hold: a body of that form with one
  more key is answered with 400 as well, because the schema is a closed object.
\<close>

theorem send_message_validation_counterexample:
  "body_wellformed [(''number'', JString ''62812345''), (''message'', JString ''hi''),
                    (''priority'', JString ''high'')] \<and>
   post_send_message ascii_toLowerCase default_config ready_session
     [(''number'', JString ''62812345''), (''message'', JString ''hi''),
      (''priority'', JString ''high'')] (Inr ())
   = [Respond 400 (ValidationFailure (ObjectUnknown ''priority''))]"
  by code_simp

text \<open>
  Claim C7, amended: the route answers 400 exactly when the body is not of the form above
  or has a key other than \<open>number\<close>, \<open>groupTitle\<close> and \<open>message\<close>; the answer
  then carries the violation and is the only effect, so nothing is dispatched; a body
  with both \<open>number\<close> and \<open>groupTitle\<close> is answered with 400.
\<close>

theorem send_message_validation:
  "((\<exists>x. Respond 400 x \<in> set (post_send_message toLowerCase cfg s b r))
      \<longleftrightarrow> \<not> (body_wellformed b \<and> only_schema_keys b)) \<and>
   (\<not> (body_wellformed b \<and> only_schema_keys b) \<longrightarrow>
      (\<exists>e. post_send_message toLowerCase cfg s b r = [Respond 400 (ValidationFailure e)])) \<and>
   (present b ''number'' \<and> present b ''groupTitle'' \<longrightarrow>
      (\<exists>e. post_send_message toLowerCase cfg s b r = [Respond 400 (ValidationFailure e)]))"
proof -
  have a: "\<exists>e. post_send_message toLowerCase cfg s b r = [Respond 400 (ValidationFailure e)]"
    if "\<not> (body_wellformed b \<and> only_schema_keys b)"
  proof -
    from that obtain e where "validate msgSchema b = Inl e"
      using validate_msgSchema_Inl[of b] by blast
    then show ?thesis by (simp add: post_send_message_def)
  qed
  have b: "\<not> (\<exists>x. Respond 400 x \<in> set (post_send_message toLowerCase cfg s b r))"
    if "body_wellformed b \<and> only_schema_keys b"
  proof -
    from that have "validate msgSchema b = Inr b" by (simp add: validate_msgSchema_Inr)
    then show ?thesis by (simp add: post_send_message_statuses)
  qed
  have c: "\<not> body_wellformed b" if "present b ''number'' \<and> present b ''groupTitle''"
    using that by (simp add: body_wellformed_def)
  from a b c show ?thesis by fastforce
qed

theorem send_message_validation_witness:
  "present [(''number'', JString ''+62812345''), (''groupTitle'', JString ''WEB CUNGS''),
            (''message'', JString ''hi'')] ''number'' \<and>
   present [(''number'', JString ''+62812345''), (''groupTitle'', JString ''WEB CUNGS''),
            (''message'', JString ''hi'')] ''groupTitle'' \<and>
   post_send_message ascii_toLowerCase default_config ready_session
     [(''number'', JString ''+62812345''), (''groupTitle'', JString ''WEB CUNGS''),
      (''message'', JString ''hi'')] (Inr ())
     = [Respond 400 (ValidationFailure (ObjectXor [''number'', ''groupTitle'']))] \<and>
   body_wellformed [(''number'', JString ''+62812345''), (''message'', JString ''hi'')] \<and>
   only_schema_keys [(''number'', JString ''+62812345''), (''message'', JString ''hi'')] \<and>
   Respond 400 (ValidationFailure (ObjectXor [''number'', ''groupTitle'']))
     \<notin> set (post_send_message ascii_toLowerCase default_config ready_session
              [(''number'', JString ''+62812345''), (''message'', JString ''hi'')] (Inr ()))"
proof -
  have p: "present [(''number'', JString ''+62812345''), (''groupTitle'', JString ''WEB CUNGS''),
            (''message'', JString ''hi'')] ''number''"
     "present [(''number'', JString ''+62812345''), (''groupTitle'', JString ''WEB CUNGS''),
            (''message'', JString ''hi'')] ''groupTitle''"
    by (simp_all add: present_def)
  have e: "post_send_message ascii_toLowerCase default_config ready_session
     [(''number'', JString ''+62812345''), (''groupTitle'', JString ''WEB CUNGS''),
      (''message'', JString ''hi'')] (Inr ())
     = [Respond 400 (ValidationFailure (ObjectXor [''number'', ''groupTitle'']))]"
    by code_simp
  have w: "body_wellformed [(''number'', JString ''+62812345''), (''message'', JString ''hi'')]"
    "only_schema_keys [(''number'', JString ''+62812345''), (''message'', JString ''hi'')]"
    by code_simp+
  show ?thesis
    using p e w
      send_message_validation [where b = "[(''number'', JString ''+62812345''),
          (''groupTitle'', JString ''WEB CUNGS''), (''message'', JString ''hi'')]"
        and cfg = default_config and toLowerCase = ascii_toLowerCase and s = ready_session and r = "Inr ()"]
      send_message_validation [where b = "[(''number'', JString ''+62812345''), (''message'', JString ''hi'')]"
        and cfg = default_config and toLowerCase = ascii_toLowerCase and s = ready_session and r = "Inr ()"]
    by blast
qed

text \<open>
  Claim C6. For a request that supplies a \<open>number\<close> of the pattern, the target is the
  number without its non-digits, followed by \<open>@c.us\<close>: when the body passes validation
  and the adapter is ready, the response is 200 with that target and the message is
  dispatched to it; and whatever else the body holds, no 200 response and no dispatch
  of this request names another target.
\<close>

theorem send_message_number_target:
  assumes "map_of b ''number'' = Some (JString n)" and "number_pattern n"
  shows "(validate msgSchema b = Inr v \<longrightarrow> clientReady s \<longrightarrow>
            (\<exists>rest. post_send_message toLowerCase cfg s b r =
               Respond 200 (Accepted (filter is_digit n @ ''@c.us''))
               # ClientSendMessage (filter is_digit n @ ''@c.us'') (str_field b ''message'') # rest)) \<and>
         (\<forall>t. Respond 200 (Accepted t) \<in> set (post_send_message toLowerCase cfg s b r) \<longrightarrow>
            t = filter is_digit n @ ''@c.us'') \<and>
         (\<forall>t m. ClientSendMessage t m \<in> set (post_send_message toLowerCase cfg s b r) \<longrightarrow>
            t = filter is_digit n @ ''@c.us'')"
proof -
  have ne: "n \<noteq> []" using assms(2) by (rule number_pattern_nonempty)
  have res: "resolve_chatId toLowerCase cfg s b = Some (filter is_digit n @ ''@c.us'')"
    using assms(1) ne by (simp add: resolve_chatId_def str_field_number truthy_def)
  show ?thesis
  proof (cases "validate msgSchema b")
    case (Inl e)
    then show ?thesis by (simp add: post_send_message_def)
  next
    case (Inr w)
    then have w: "w = b" by (rule validate_value)
    show ?thesis using Inr res unfolding w
      by (cases r) (auto simp: post_send_message_def)
  qed
qed

theorem send_message_number_target_witness:
  "map_of [(''number'', JString ''+62812345''), (''message'', JString ''hi'')] ''number''
     = Some (JString ''+62812345'') \<and>
   number_pattern ''+62812345'' \<and>
   validate msgSchema [(''number'', JString ''+62812345''), (''message'', JString ''hi'')]
     = Inr [(''number'', JString ''+62812345''), (''message'', JString ''hi'')] \<and>
   clientReady ready_session \<and>
   post_send_message ascii_toLowerCase default_config ready_session
     [(''number'', JString ''+62812345''), (''message'', JString ''hi'')] (Inr ())
     = [Respond 200 (Accepted ''62812345@c.us''),
        ClientSendMessage ''62812345@c.us'' (Some ''hi''),
        ConsoleLog [check_mark @ '' Message sent to 62812345@c.us'']]"
proof -
  have m: "map_of [(''number'', JString ''+62812345''), (''message'', JString ''hi'')] ''number''
     = Some (JString ''+62812345'')" by simp
  have n: "number_pattern ''+62812345''" by code_simp
  have v: "validate msgSchema [(''number'', JString ''+62812345''), (''message'', JString ''hi'')]
     = Inr [(''number'', JString ''+62812345''), (''message'', JString ''hi'')]" by code_simp
  have c: "clientReady ready_session" by code_simp
  have f: "filter is_digit ''+62812345'' @ ''@c.us'' = ''62812345@c.us''" by code_simp
  have g: "str_field [(''number'', JString ''+62812345''), (''message'', JString ''hi'')] ''message'' = Some ''hi''"
    by code_simp
  from send_message_number_target [OF m n, where s = ready_session and cfg = default_config
      and toLowerCase = ascii_toLowerCase
      and r = "Inr ()" and v = "[(''number'', JString ''+62812345''), (''message'', JString ''hi'')]"] v c
  obtain rest where r: "post_send_message ascii_toLowerCase default_config ready_session
     [(''number'', JString ''+62812345''), (''message'', JString ''hi'')] (Inr ())
     = Respond 200 (Accepted ''62812345@c.us'')
        # ClientSendMessage ''62812345@c.us'' (Some ''hi'') # rest"
    unfolding f g by blast
  have "post_send_message ascii_toLowerCase default_config ready_session
     [(''number'', JString ''+62812345''), (''message'', JString ''hi'')] (Inr ())
     = [Respond 200 (Accepted ''62812345@c.us''),
        ClientSendMessage ''62812345@c.us'' (Some ''hi''),
        ConsoleLog [check_mark @ '' Message sent to 62812345@c.us'']]"
    by code_simp
  with m n v c r show ?thesis by simp
qed

text \<open>
  Claim C5. For a request that passes validation and the readiness check and supplies
  \<open>groupTitle\<close>: if the title equals the configured group name up to the case of
  letters (the two are equal after \<open>toLowerCase\<close>, whatever that function is) and a
  group id is cached, the response is 200 and the cached id is the target; in every
  other case the response is 404 and nothing else happens. Either way the adapter's
  chat list is not asked for.
\<close>

theorem send_message_group_target:
  assumes "validate msgSchema b = Inr v" and "clientReady s"
    and "map_of b ''groupTitle'' = Some (JString t)"
  shows "(if toLowerCase t = toLowerCase (GROUP_NAME cfg) \<and> truthy (cachedGroupId s)
          then \<exists>gid rest. cachedGroupId s = Some gid \<and>
                 post_send_message toLowerCase cfg s b r =
                   Respond 200 (Accepted gid) # ClientSendMessage gid (str_field b ''message'') # rest
          else post_send_message toLowerCase cfg s b r =
                 [Respond 404 (Failure ''Group not cached or unknown groupTitle'')]) \<and>
         ClientGetChats \<notin> set (post_send_message toLowerCase cfg s b r)"
proof -
  have v: "v = b" using assms(1) by (rule validate_value)
  note g = group_only[OF assms(1) assms(3)]
  have res: "resolve_chatId toLowerCase cfg s b =
     (if toLowerCase t = toLowerCase (GROUP_NAME cfg) \<and> truthy (cachedGroupId s)
      then cachedGroupId s else None)"
    by (simp add: resolve_chatId_def g truthy_def)
  show ?thesis
    using assms(1,2) unfolding v
    by (cases r; cases "cachedGroupId s") (auto simp: post_send_message_def res truthy_def)
qed

theorem send_message_group_target_witness:
  "validate msgSchema [(''groupTitle'', JString ''web cungs''), (''message'', JString ''hi'')]
     = Inr [(''groupTitle'', JString ''web cungs''), (''message'', JString ''hi'')] \<and>
   clientReady ready_session \<and>
   ascii_toLowerCase ''web cungs'' = ascii_toLowerCase (GROUP_NAME default_config) \<and>
   truthy (cachedGroupId ready_session) \<and>
   post_send_message ascii_toLowerCase default_config ready_session
     [(''groupTitle'', JString ''web cungs''), (''message'', JString ''hi'')] (Inr ())
     = [Respond 200 (Accepted ''120363041234567890@g.us''),
        ClientSendMessage ''120363041234567890@g.us'' (Some ''hi''),
        ConsoleLog [check_mark @ '' Message sent to 120363041234567890@g.us'']] \<and>
   validate msgSchema [(''groupTitle'', JString ''Other Group''), (''message'', JString ''hi'')]
     = Inr [(''groupTitle'', JString ''Other Group''), (''message'', JString ''hi'')] \<and>
   ascii_toLowerCase ''Other Group'' \<noteq> ascii_toLowerCase (GROUP_NAME default_config) \<and>
   post_send_message ascii_toLowerCase default_config ready_session
     [(''groupTitle'', JString ''Other Group''), (''message'', JString ''hi'')] (Inr ())
     = [Respond 404 (Failure ''Group not cached or unknown groupTitle'')]"
proof -
  have v1: "validate msgSchema [(''groupTitle'', JString ''web cungs''), (''message'', JString ''hi'')]
     = Inr [(''groupTitle'', JString ''web cungs''), (''message'', JString ''hi'')]" by code_simp
  have v2: "validate msgSchema [(''groupTitle'', JString ''Other Group''), (''message'', JString ''hi'')]
     = Inr [(''groupTitle'', JString ''Other Group''), (''message'', JString ''hi'')]" by code_simp
  have c: "clientReady ready_session" by code_simp
  have k: "cachedGroupId ready_session = Some ''120363041234567890@g.us''" by code_simp
  have t: "truthy (cachedGroupId ready_session)" by code_simp
  have l1: "ascii_toLowerCase ''web cungs'' = ascii_toLowerCase (GROUP_NAME default_config)" by code_simp
  have l2: "ascii_toLowerCase ''Other Group'' \<noteq> ascii_toLowerCase (GROUP_NAME default_config)" by code_simp
  have m1: "map_of [(''groupTitle'', JString ''web cungs''), (''message'', JString ''hi'')] ''groupTitle''
     = Some (JString ''web cungs'')" by simp
  have m2: "map_of [(''groupTitle'', JString ''Other Group''), (''message'', JString ''hi'')] ''groupTitle''
     = Some (JString ''Other Group'')" by simp
  have a: "post_send_message ascii_toLowerCase default_config ready_session
     [(''groupTitle'', JString ''Other Group''), (''message'', JString ''hi'')] (Inr ())
     = [Respond 404 (Failure ''Group not cached or unknown groupTitle'')]"
    using send_message_group_target [OF v2 c m2, where cfg = default_config
        and toLowerCase = ascii_toLowerCase and r = "Inr ()"] l2
    by simp
  have b: "post_send_message ascii_toLowerCase default_config ready_session
     [(''groupTitle'', JString ''web cungs''), (''message'', JString ''hi'')] (Inr ())
     = [Respond 200 (Accepted ''120363041234567890@g.us''),
        ClientSendMessage ''120363041234567890@g.us'' (Some ''hi''),
        ConsoleLog [check_mark @ '' Message sent to 120363041234567890@g.us'']]"
    by code_simp
  from v1 v2 c t l1 l2 a b show ?thesis by simp
qed

text \<open>
  Claim C4. For a request that passes validation, the readiness check and the resolution
  of the target, the first effect is the 200 response with the target and the dispatch
  to the adapter comes after it; whatever the outcome of the dispatch, that response is
  the only one, and a failed dispatch adds nothing but a line on the error console.
\<close>

theorem send_message_responds_first:
  assumes "validate msgSchema b = Inr v" and "clientReady s"
    and "resolve_chatId toLowerCase cfg s v = Some chatId"
  shows "(\<exists>rest. post_send_message toLowerCase cfg s b r =
            Respond 200 (Accepted chatId) # ClientSendMessage chatId (str_field v ''message'') # rest) \<and>
         filter is_Respond (post_send_message toLowerCase cfg s b r) = [Respond 200 (Accepted chatId)] \<and>
         (\<forall>err. r = Inl err \<longrightarrow>
            post_send_message toLowerCase cfg s b r =
              [Respond 200 (Accepted chatId), ClientSendMessage chatId (str_field v ''message''),
               ConsoleError [cross_mark @ '' Failed to send message to '' @ chatId @ '':'',
                             err_message err]])"
  using assms by (cases r) (simp_all add: post_send_message_def)

theorem send_message_responds_first_witness:
  "validate msgSchema [(''number'', JString ''+62812345''), (''message'', JString ''hi'')]
     = Inr [(''number'', JString ''+62812345''), (''message'', JString ''hi'')] \<and>
   clientReady ready_session \<and>
   resolve_chatId ascii_toLowerCase default_config ready_session
     [(''number'', JString ''+62812345''), (''message'', JString ''hi'')] = Some ''62812345@c.us'' \<and>
   post_send_message ascii_toLowerCase default_config ready_session
     [(''number'', JString ''+62812345''), (''message'', JString ''hi'')] (Inl net_error)
     = [Respond 200 (Accepted ''62812345@c.us''),
        ClientSendMessage ''62812345@c.us''
          (str_field [(''number'', JString ''+62812345''), (''message'', JString ''hi'')] ''message''),
        ConsoleError [cross_mark @ '' Failed to send message to '' @ ''62812345@c.us'' @ '':'',
                      err_message net_error]] \<and>
   filter is_Respond (post_send_message ascii_toLowerCase default_config ready_session
     [(''number'', JString ''+62812345''), (''message'', JString ''hi'')] (Inl net_error))
     = [Respond 200 (Accepted ''62812345@c.us'')]"
proof -
  have v: "validate msgSchema [(''number'', JString ''+62812345''), (''message'', JString ''hi'')]
     = Inr [(''number'', JString ''+62812345''), (''message'', JString ''hi'')]" by code_simp
  have c: "clientReady ready_session" by code_simp
  have r: "resolve_chatId ascii_toLowerCase default_config ready_session
     [(''number'', JString ''+62812345''), (''message'', JString ''hi'')] = Some ''62812345@c.us''"
    by code_simp
  show ?thesis
    using v c r send_message_responds_first [OF v c r, where r = "Inl net_error"]
    by simp
qed

section \<open>Incoming messages\<close>

lemma on_message_match:
  assumes "\<not> fromMe msg" and "getChat msg = Inr c" and "chat_isGroup c"
    and "chat_name c = GROUP_NAME cfg" and "orderId_match (body msg) = Some oid"
  shows "on_message cfg msg p r =
     ([MsgGetChat, ConsoleLog [arrow @ '' Detected order ID: '' @ oid]]
      @ notify_order cfg c
          \<lparr> order_id = oid, order_group = GROUP_NAME cfg,
            order_sender = js_or (author msg) (sender_from msg),
            order_message = body msg, order_timestamp = timestamp msg \<rparr>
          oid p r, None)"
  using assms by (simp add: on_message_def on_message_try_def)

lemma on_message_effects_need_match:
  "e \<in> set (fst (on_message cfg msg p r)) \<Longrightarrow> is_AxiosPost e \<or> is_ChatSendMessage e \<Longrightarrow>
   \<not> fromMe msg \<and> (\<exists>c. getChat msg = Inr c \<and> chat_isGroup c \<and> chat_name c = GROUP_NAME cfg) \<and>
   orderId_match (body msg) \<noteq> None"
  by (auto simp: on_message_def on_message_try_def split: if_splits sum.splits option.splits)

text \<open>
  Claim C9. A message of the bot's own is dropped at once, with no effect at all. A message
  of anyone else whose chat is not a group, or is not named exactly as the configured
  group, is dropped after the chat has been looked up, and the lookup is all that
  happens. Only a message that passes both tests is searched for an order reference,
  and what follows depends on the search: nothing on no match, the notification on a
  match. So a post to the order API or a message to a chat occurs only for a message
  that is not the bot's own and whose chat is the configured group.
\<close>

theorem incoming_filter:
  "(fromMe msg \<longrightarrow> on_message cfg msg p r = ([], None)) \<and>
   (\<not> fromMe msg \<longrightarrow> getChat msg = Inr c \<longrightarrow> \<not> chat_isGroup c \<or> chat_name c \<noteq> GROUP_NAME cfg \<longrightarrow>
      on_message cfg msg p r = ([MsgGetChat], None)) \<and>
   (\<not> fromMe msg \<longrightarrow> getChat msg = Inr c \<longrightarrow> chat_isGroup c \<longrightarrow> chat_name c = GROUP_NAME cfg \<longrightarrow>
      on_message cfg msg p r =
        (case orderId_match (body msg) of
           None \<Rightarrow> ([MsgGetChat], None)
         | Some oid \<Rightarrow>
             ([MsgGetChat, ConsoleLog [arrow @ '' Detected order ID: '' @ oid]]
              @ notify_order cfg c
                  \<lparr> order_id = oid, order_group = GROUP_NAME cfg,
                    order_sender = js_or (author msg) (sender_from msg),
                    order_message = body msg, order_timestamp = timestamp msg \<rparr>
                  oid p r, None))) \<and>
   ((\<exists>e \<in> set (fst (on_message cfg msg p r)). is_AxiosPost e \<or> is_ChatSendMessage e) \<longrightarrow>
      \<not> fromMe msg \<and> (\<exists>c. getChat msg = Inr c \<and> chat_isGroup c \<and> chat_name c = GROUP_NAME cfg))"
proof (intro conjI impI)
  assume "\<exists>e \<in> set (fst (on_message cfg msg p r)). is_AxiosPost e \<or> is_ChatSendMessage e"
  then obtain e where "e \<in> set (fst (on_message cfg msg p r))" "is_AxiosPost e \<or> is_ChatSendMessage e"
    by blast
  from on_message_effects_need_match[OF this]
  show "\<not> fromMe msg" "\<exists>c. getChat msg = Inr c \<and> chat_isGroup c \<and> chat_name c = GROUP_NAME cfg"
    by blast+
qed (auto simp: on_message_def on_message_try_def split: option.splits)

theorem incoming_filter_witness:
  "fromMe own_msg \<and>
   on_message default_config own_msg (Inr ()) (Inr ()) = ([], None) \<and>
   \<not> fromMe stray_msg \<and> getChat stray_msg = Inr family_chat \<and>
   chat_name family_chat \<noteq> GROUP_NAME default_config \<and>
   on_message default_config stray_msg (Inr ()) (Inr ()) = ([MsgGetChat], None) \<and>
   \<not> fromMe order_msg \<and> getChat order_msg = Inr web_cungs \<and> chat_isGroup web_cungs \<and>
   chat_name web_cungs = GROUP_NAME default_config \<and>
   on_message default_config order_msg (Inr ()) (Inr ()) =
     ([MsgGetChat, ConsoleLog [arrow @ '' Detected order ID: '' @ ''482''],
       AxiosPost ''http://localhost:8000/api/orders/mark-as-done''
         \<lparr> order_id = ''482'', order_group = ''WEB CUNGS'', order_sender = ''6281234567@c.us'',
           order_message = ''Please confirm d/482 thanks'', order_timestamp = 1700000000 \<rparr>,
       ChatSendMessage web_cungs (check_mark @ '' Order ID '' @ ''482'' @ '' telah diproses.'')],
      None)"
proof -
  have a: "fromMe own_msg" "\<not> fromMe stray_msg" "\<not> fromMe order_msg"
    by (simp_all add: own_msg_def stray_msg_def order_msg_def)
  have b: "getChat stray_msg = Inr family_chat" "getChat order_msg = Inr web_cungs"
    by (simp_all add: stray_msg_def order_msg_def)
  have c: "chat_name family_chat \<noteq> GROUP_NAME default_config" "chat_isGroup web_cungs"
    "chat_name web_cungs = GROUP_NAME default_config"
    by code_simp+
  have "orderId_match ''Please confirm d/482 thanks'' = Some ''482''" by code_simp
  then have e: "orderId_match (body order_msg) = Some ''482''" by (simp add: order_msg_def)
  have f: "API_ENDPOINT default_config = ''http://localhost:8000/api/orders/mark-as-done''"
    "GROUP_NAME default_config = ''WEB CUNGS''"
    "js_or (author order_msg) (sender_from order_msg) = ''6281234567@c.us''"
    "body order_msg = ''Please confirm d/482 thanks''" "timestamp order_msg = 1700000000"
    by (simp_all add: default_config_def load_config_def js_or_def order_msg_def)
  have n: "notify_order default_config web_cungs
      \<lparr> order_id = ''482'', order_group = ''WEB CUNGS'', order_sender = ''6281234567@c.us'',
        order_message = ''Please confirm d/482 thanks'', order_timestamp = 1700000000 \<rparr>
      ''482'' (Inr ()) (Inr ()) =
     [AxiosPost ''http://localhost:8000/api/orders/mark-as-done''
         \<lparr> order_id = ''482'', order_group = ''WEB CUNGS'', order_sender = ''6281234567@c.us'',
           order_message = ''Please confirm d/482 thanks'', order_timestamp = 1700000000 \<rparr>,
       ChatSendMessage web_cungs (check_mark @ '' Order ID '' @ ''482'' @ '' telah diproses.'')]"
    by (simp add: notify_order_def f)
  have o: "on_message default_config own_msg (Inr ()) (Inr ()) = ([], None)"
    using incoming_filter [where msg = own_msg and cfg = default_config and p = "Inr ()"
        and r = "Inr ()" and c = web_cungs] a(1)
    by blast
  have s: "on_message default_config stray_msg (Inr ()) (Inr ()) = ([MsgGetChat], None)"
    using incoming_filter [where msg = stray_msg and cfg = default_config and p = "Inr ()"
        and r = "Inr ()" and c = family_chat] a(2) b(1) c(1)
    by blast
  have "on_message default_config order_msg (Inr ()) (Inr ()) =
        (case orderId_match (body order_msg) of
           None \<Rightarrow> ([MsgGetChat], None)
         | Some oid \<Rightarrow>
             ([MsgGetChat, ConsoleLog [arrow @ '' Detected order ID: '' @ oid]]
              @ notify_order default_config web_cungs
                  \<lparr> order_id = oid, order_group = GROUP_NAME default_config,
                    order_sender = js_or (author order_msg) (sender_from order_msg),
                    order_message = body order_msg, order_timestamp = timestamp order_msg \<rparr>
                  oid (Inr ()) (Inr ()), None))"
    using incoming_filter [where msg = order_msg and cfg = default_config and p = "Inr ()"
        and r = "Inr ()" and c = web_cungs] a(3) b(2) c(2,3)
    by blast
  then have m: "on_message default_config order_msg (Inr ()) (Inr ()) =
     ([MsgGetChat, ConsoleLog [arrow @ '' Detected order ID: '' @ ''482''],
       AxiosPost ''http://localhost:8000/api/orders/mark-as-done''
         \<lparr> order_id = ''482'', order_group = ''WEB CUNGS'', order_sender = ''6281234567@c.us'',
           order_message = ''Please confirm d/482 thanks'', order_timestamp = 1700000000 \<rparr>,
       ChatSendMessage web_cungs (check_mark @ '' Order ID '' @ ''482'' @ '' telah diproses.'')],
      None)"
    unfolding e by (simp add: f n)
  from a b c o s m show ?thesis by simp
qed

text \<open>
  Claim C3. For a message that passes the filter and holds an order reference: when the
  post to the order API fails, the handler posts once, writes the failure to the error
  console, sends nothing to any chat and ends without an error; when the post succeeds,
  the handler posts once and sends one message, to the chat the message came from, whose
  text holds the order identifier, and ends without an error whatever becomes of that
  send.
\<close>

theorem order_notifier_outcomes:
  assumes "\<not> fromMe msg" and "getChat msg = Inr c" and "chat_isGroup c"
    and "chat_name c = GROUP_NAME cfg" and "orderId_match (body msg) = Some oid"
  shows "on_message cfg msg (Inl err) r =
           ([MsgGetChat, ConsoleLog [arrow @ '' Detected order ID: '' @ oid],
             AxiosPost (API_ENDPOINT cfg)
               \<lparr> order_id = oid, order_group = GROUP_NAME cfg,
                 order_sender = js_or (author msg) (sender_from msg),
                 order_message = body msg, order_timestamp = timestamp msg \<rparr>,
             ConsoleError [''[WA-BOT] API Error:'', api_error_text err]], None) \<and>
         length (filter is_AxiosPost (fst (on_message cfg msg (Inl err) r))) = 1 \<and>
         filter is_ChatSendMessage (fst (on_message cfg msg (Inl err) r)) = [] \<and>
         filter is_ChatSendMessage (fst (on_message cfg msg (Inr ()) r)) =
           [ChatSendMessage c (check_mark @ '' Order ID '' @ oid @ '' telah diproses.'')] \<and>
         length (filter is_AxiosPost (fst (on_message cfg msg (Inr ()) r))) = 1 \<and>
         snd (on_message cfg msg (Inr ()) r) = None"
  unfolding on_message_match [OF assms]
  by (simp add: notify_order_def split: sum.splits)

theorem order_notifier_outcomes_witness:
  "\<not> fromMe order_msg \<and> getChat order_msg = Inr web_cungs \<and> chat_isGroup web_cungs \<and>
   chat_name web_cungs = GROUP_NAME default_config \<and>
   orderId_match (body order_msg) = Some ''482'' \<and>
   on_message default_config order_msg (Inl net_error) (Inr ()) =
     ([MsgGetChat, ConsoleLog [arrow @ '' Detected order ID: '' @ ''482''],
       AxiosPost ''http://localhost:8000/api/orders/mark-as-done''
         \<lparr> order_id = ''482'', order_group = ''WEB CUNGS'', order_sender = ''6281234567@c.us'',
           order_message = ''Please confirm d/482 thanks'', order_timestamp = 1700000000 \<rparr>,
       ConsoleError [''[WA-BOT] API Error:'', ''connect ECONNREFUSED 127.0.0.1:8000'']], None) \<and>
   filter is_ChatSendMessage (fst (on_message default_config order_msg (Inr ()) (Inr ()))) =
     [ChatSendMessage web_cungs (check_mark @ '' Order ID '' @ ''482'' @ '' telah diproses.'')]"
proof -
  have a: "\<not> fromMe order_msg" by (simp add: order_msg_def)
  have b: "getChat order_msg = Inr web_cungs" by (simp add: order_msg_def)
  have c: "chat_isGroup web_cungs" by code_simp
  have d: "chat_name web_cungs = GROUP_NAME default_config" by code_simp
  have "orderId_match ''Please confirm d/482 thanks'' = Some ''482''" by code_simp
  then have e: "orderId_match (body order_msg) = Some ''482''" by (simp add: order_msg_def)
  have f: "API_ENDPOINT default_config = ''http://localhost:8000/api/orders/mark-as-done''"
    "GROUP_NAME default_config = ''WEB CUNGS''"
    "js_or (author order_msg) (sender_from order_msg) = ''6281234567@c.us''"
    "body order_msg = ''Please confirm d/482 thanks''" "timestamp order_msg = 1700000000"
    "api_error_text net_error = ''connect ECONNREFUSED 127.0.0.1:8000''"
    by (simp_all add: default_config_def load_config_def js_or_def order_msg_def
          api_error_text_def net_error_def)
  show ?thesis
    using a b c d e
      order_notifier_outcomes [OF a b c d e, where err = net_error and r = "Inr ()"]
    unfolding f by simp
qed

section \<open>The session across adapter events\<close>

lemma handle_latestQR:
  "latestQR (fst (handle cfg s e)) = (case e of Qr (Inr u) \<Rightarrow> Some u | _ \<Rightarrow> latestQR s)"
  by (cases e)
     (auto simp: on_qr_def on_ready_def on_ready_chats_def on_auth_failure_def
                 on_disconnected_def Let_def
           split: sum.splits option.splits)

lemma run_latestQR: "latestQR s = Some u \<Longrightarrow> latestQR (run cfg s es) = Some (latest_url u es)"
proof (induction u es arbitrary: s rule: latest_url.induct)
  case (1 u)
  then show ?case by simp
next
  case (2 u v es)
  have "latestQR (fst (handle cfg s (Qr (Inr v)))) = Some v" by (simp add: on_qr_def)
  from "2.IH"[OF this] show ?case by simp
qed (simp_all add: handle_latestQR del: handle.simps)

lemma latest_url_nonempty:
  "u \<noteq> [] \<Longrightarrow> \<forall>e \<in> set es. dataurl_ok e \<Longrightarrow> latest_url u es \<noteq> []"
  by (induction u es rule: latest_url.induct) simp_all

lemma handle_keeps_ready_false:
  "\<not> is_Ready e \<Longrightarrow> \<not> clientReady s \<Longrightarrow> \<not> clientReady (fst (handle cfg s e))"
  by (cases e)
     (auto simp: on_qr_def on_ready_chats_def on_auth_failure_def on_disconnected_def Let_def
           split: sum.splits option.splits)

lemma handle_group:
  "(cachedGroupId (fst (handle cfg s e)) = cachedGroupId s \<and>
    groupChatInstance (fst (handle cfg s e)) = groupChatInstance s) \<or>
   (\<exists>chats g. e = ReadyChats (Inr chats) \<and>
      find (\<lambda>c. chat_name c = GROUP_NAME cfg) chats = Some g \<and>
      cachedGroupId (fst (handle cfg s e)) = Some (chat_id g) \<and>
      groupChatInstance (fst (handle cfg s e)) = Some g)"
  by (cases e)
     (auto simp: on_qr_def on_ready_def on_ready_chats_def on_auth_failure_def
                 on_disconnected_def Let_def
           split: sum.splits option.splits)

lemma handle_keeps_group:
  "\<not> is_ReadyChats e \<Longrightarrow>
   cachedGroupId (fst (handle cfg s e)) = cachedGroupId s \<and>
   groupChatInstance (fst (handle cfg s e)) = groupChatInstance s"
  using handle_group[of cfg s e] by auto

lemma run_keeps_ready_false:
  "\<forall>x \<in> set es. \<not> is_Ready x \<Longrightarrow> \<not> clientReady s \<Longrightarrow> \<not> clientReady (run cfg s es)"
proof (induction es arbitrary: s)
  case Nil
  then show ?case by simp
next
  case (Cons e es)
  from Cons.prems have "\<not> clientReady (fst (handle cfg s e))"
    by (simp add: handle_keeps_ready_false del: handle.simps)
  with Cons show ?case by (simp del: handle.simps)
qed

lemma run_keeps_group:
  "\<forall>x \<in> set es. \<not> is_ReadyChats x \<Longrightarrow>
   cachedGroupId (run cfg s es) = cachedGroupId s \<and>
   groupChatInstance (run cfg s es) = groupChatInstance s"
proof (induction es arbitrary: s)
  case Nil
  then show ?case by simp
next
  case (Cons e es)
  then show ?case by (simp add: handle_keeps_group del: handle.simps)
qed

lemma run_group:
  "(cachedGroupId (run cfg s es) = cachedGroupId s \<and>
    groupChatInstance (run cfg s es) = groupChatInstance s) \<or>
   (\<exists>chats g. ReadyChats (Inr chats) \<in> set es \<and>
      find (\<lambda>c. chat_name c = GROUP_NAME cfg) chats = Some g \<and>
      cachedGroupId (run cfg s es) = Some (chat_id g) \<and>
      groupChatInstance (run cfg s es) = Some g)"
proof (induction es arbitrary: s)
  case Nil
  then show ?case by simp
next
  case (Cons e es)
  note ih = Cons.IH[of "fst (handle cfg s e)"]
  note h = handle_group[of cfg s e]
  show ?case
  proof (cases "\<exists>chats g. ReadyChats (Inr chats) \<in> set es \<and>
      find (\<lambda>c. chat_name c = GROUP_NAME cfg) chats = Some g \<and>
      cachedGroupId (run cfg (fst (handle cfg s e)) es) = Some (chat_id g) \<and>
      groupChatInstance (run cfg (fst (handle cfg s e)) es) = Some g")
    case True
    then show ?thesis by (auto simp del: handle.simps)
  next
    case False
    with ih have k: "cachedGroupId (run cfg (fst (handle cfg s e)) es) = cachedGroupId (fst (handle cfg s e))"
      "groupChatInstance (run cfg (fst (handle cfg s e)) es) = groupChatInstance (fst (handle cfg s e))"
      by blast+
    from h show ?thesis
    proof
      assume "cachedGroupId (fst (handle cfg s e)) = cachedGroupId s \<and>
              groupChatInstance (fst (handle cfg s e)) = groupChatInstance s"
      with k show ?thesis by (simp del: handle.simps)
    next
      assume "\<exists>chats g. e = ReadyChats (Inr chats) \<and>
        find (\<lambda>c. chat_name c = GROUP_NAME cfg) chats = Some g \<and>
        cachedGroupId (fst (handle cfg s e)) = Some (chat_id g) \<and>
        groupChatInstance (fst (handle cfg s e)) = Some g"
      then obtain chats g where "e = ReadyChats (Inr chats)"
        "find (\<lambda>c. chat_name c = GROUP_NAME cfg) chats = Some g"
        "cachedGroupId (fst (handle cfg s e)) = Some (chat_id g)"
        "groupChatInstance (fst (handle cfg s e)) = Some g" by blast
      with k have "ReadyChats (Inr chats) \<in> set (e # es) \<and>
        find (\<lambda>c. chat_name c = GROUP_NAME cfg) chats = Some g \<and>
        cachedGroupId (run cfg s (e # es)) = Some (chat_id g) \<and>
        groupChatInstance (run cfg s (e # es)) = Some g"
        by (simp del: handle.simps)
      then show ?thesis by blast
    qed
  qed
qed

text \<open>
  Claim C2, as stated: a \<open>disconnected\<close> event clears the cached group together with
  the readiness flag, so that the status route reports \<open>groupCached: false\<close> afterwards.
  It does not hold: after \<open>ready\<close> has cached the group, \<open>disconnected\<close> leaves it
  cached and the status route reports \<open>ready: false, groupCached: true\<close>.
\<close>

theorem disconnect_clears_group_counterexample:
  "get_status
     (run default_config initial_session
        [Ready, ReadyChats (Inr [web_cungs]), Disconnected ''NAVIGATION'' (Inr ())]) None
   = [Respond 200 (StatusJson False True None)]"
  by code_simp

text \<open>
  Claim C2, amended: handling a \<open>disconnected\<close> or an \<open>auth_failure\<close> event sets the
  readiness flag to false and changes nothing else of the session. After such an event
  and until a \<open>ready\<close> event, the status route reports \<open>ready: false\<close>, and
  \<open>groupCached\<close> tells whether a group id is cached: the cached handle and id are the
  ones from before the event, or those of the configured group as found by a
  \<open>ready\<close> handler that was suspended at its chat list fetch and resumed in between.
  When no such handler resumes, \<open>groupCached\<close> is as it was before the event.
\<close>

theorem disconnect_keeps_group:
  assumes "e = Disconnected reason n \<or> e = AuthFailure reason n"
    and "\<forall>x \<in> set es. \<not> is_Ready x"
  shows "fst (handle cfg s e) = s\<lparr>clientReady := False\<rparr> \<and>
         get_status (run cfg s (e # es)) info =
           [Respond 200 (StatusJson False (truthy (cachedGroupId (run cfg s (e # es)))) info)] \<and>
         (cachedGroupId (run cfg s (e # es)) = cachedGroupId s \<and>
          groupChatInstance (run cfg s (e # es)) = groupChatInstance s \<or>
          (\<exists>chats g. ReadyChats (Inr chats) \<in> set es \<and>
             find (\<lambda>c. chat_name c = GROUP_NAME cfg) chats = Some g \<and>
             cachedGroupId (run cfg s (e # es)) = Some (chat_id g) \<and>
             groupChatInstance (run cfg s (e # es)) = Some g)) \<and>
         ((\<forall>x \<in> set es. \<not> is_ReadyChats x) \<longrightarrow>
            cachedGroupId (run cfg s (e # es)) = cachedGroupId s \<and>
            groupChatInstance (run cfg s (e # es)) = groupChatInstance s \<and>
            get_status (run cfg s (e # es)) info =
              [Respond 200 (StatusJson False (truthy (cachedGroupId s)) info)])"
proof -
  let ?s1 = "s\<lparr>clientReady := False\<rparr>"
  have h: "fst (handle cfg s e) = ?s1"
    using assms(1) by (auto simp: on_disconnected_def on_auth_failure_def Let_def)
  then have r: "run cfg s (e # es) = run cfg ?s1 es" by (simp del: handle.simps)
  have "\<not> clientReady ?s1" by simp
  from run_keeps_ready_false[OF assms(2) this, of cfg]
  have a: "\<not> clientReady (run cfg ?s1 es)" .
  have b: "(cachedGroupId (run cfg ?s1 es) = cachedGroupId s \<and>
            groupChatInstance (run cfg ?s1 es) = groupChatInstance s) \<or>
           (\<exists>chats g. ReadyChats (Inr chats) \<in> set es \<and>
              find (\<lambda>c. chat_name c = GROUP_NAME cfg) chats = Some g \<and>
              cachedGroupId (run cfg ?s1 es) = Some (chat_id g) \<and>
              groupChatInstance (run cfg ?s1 es) = Some g)"
    using run_group[of cfg ?s1 es] by simp
  have c: "cachedGroupId (run cfg ?s1 es) = cachedGroupId s \<and>
           groupChatInstance (run cfg ?s1 es) = groupChatInstance s"
    if "\<forall>x \<in> set es. \<not> is_ReadyChats x"
    using run_keeps_group[OF that, of cfg ?s1] by simp
  from a have d: "get_status (run cfg ?s1 es) info =
      [Respond 200 (StatusJson False (truthy (cachedGroupId (run cfg ?s1 es))) info)]"
    by (simp add: get_status_def)
  show ?thesis
    unfolding r using h b c d by (auto simp del: handle.simps run.simps)
qed

theorem disconnect_keeps_group_witness:
  "list_all (\<lambda>x. \<not> is_Ready x) [Qr (Inr ''data:image/png;base64,AAAA''), KeepAlive] \<and>
   list_all (\<lambda>x. \<not> is_ReadyChats x) [Qr (Inr ''data:image/png;base64,AAAA''), KeepAlive] \<and>
   get_status (run default_config ready_session
      (Disconnected ''NAVIGATION'' (Inr ()) # [Qr (Inr ''data:image/png;base64,AAAA''), KeepAlive])) None
   = [Respond 200 (StatusJson False True None)] \<and>
   get_status (run default_config initial_session
      (AuthFailure ''expired'' (Inr ()) # [Qr (Inr ''data:image/png;base64,AAAA''), KeepAlive])) None
   = [Respond 200 (StatusJson False False None)] \<and>
   list_all (\<lambda>x. \<not> is_Ready x) [ReadyChats (Inr [web_cungs])] \<and>
   cachedGroupId (run default_config initial_session [Ready]) = None \<and>
   get_status (run default_config (run default_config initial_session [Ready])
      (Disconnected ''NAVIGATION'' (Inr ()) # [ReadyChats (Inr [web_cungs])])) None
   = [Respond 200 (StatusJson False True None)]"
proof -
  have a: "\<forall>x \<in> set [Qr (Inr ''data:image/png;base64,AAAA''), KeepAlive]. \<not> is_Ready x" by simp
  have a': "\<forall>x \<in> set [Qr (Inr ''data:image/png;base64,AAAA''), KeepAlive]. \<not> is_ReadyChats x"
    by simp
  have b: "\<forall>x \<in> set [ReadyChats (Inr [web_cungs])]. \<not> is_Ready x" by simp
  have t: "truthy (cachedGroupId ready_session)" "\<not> truthy (cachedGroupId initial_session)"
    "cachedGroupId (run default_config initial_session [Ready]) = None"
    by code_simp+
  have u: "truthy (cachedGroupId (run default_config (run default_config initial_session [Ready])
      (Disconnected ''NAVIGATION'' (Inr ()) # [ReadyChats (Inr [web_cungs])])))"
    by code_simp
  have 1: "get_status (run default_config ready_session
      (Disconnected ''NAVIGATION'' (Inr ()) # [Qr (Inr ''data:image/png;base64,AAAA''), KeepAlive])) None
     = [Respond 200 (StatusJson False True None)]"
    using disconnect_keeps_group [OF _ a, where e = "Disconnected ''NAVIGATION'' (Inr ())"
        and reason = "''NAVIGATION''" and n = "Inr ()" and cfg = default_config
        and s = ready_session and info = None] a' t(1)
    by (simp del: run.simps)
  have 2: "get_status (run default_config initial_session
      (AuthFailure ''expired'' (Inr ()) # [Qr (Inr ''data:image/png;base64,AAAA''), KeepAlive])) None
     = [Respond 200 (StatusJson False False None)]"
    using disconnect_keeps_group [OF _ a, where e = "AuthFailure ''expired'' (Inr ())"
        and reason = "''expired''" and n = "Inr ()" and cfg = default_config
        and s = initial_session and info = None] a' t(2)
    by (simp del: run.simps)
  have 3: "get_status (run default_config (run default_config initial_session [Ready])
      (Disconnected ''NAVIGATION'' (Inr ()) # [ReadyChats (Inr [web_cungs])])) None
     = [Respond 200 (StatusJson False True None)]"
    using disconnect_keeps_group [OF _ b, where e = "Disconnected ''NAVIGATION'' (Inr ())"
        and reason = "''NAVIGATION''" and n = "Inr ()" and cfg = default_config
        and s = "run default_config initial_session [Ready]" and info = None] u
    by (simp del: run.simps)
  from 1 2 3 t(3) show ?thesis by simp
qed

text \<open>
  Claim C10. Once a \<open>qr\<close> event has cached an image, no later event makes the cache
  absent: after any events that follow, the cache holds the image of the latest
  \<open>qr\<close> event that rendered one, and the QR route answers with the HTML page whose
  \<open>img\<close> element has that image as its source, never with the text for a missing QR.
\<close>

theorem qr_stays_cached:
  assumes "u \<noteq> []" and "\<forall>e \<in> set es. dataurl_ok e"
  shows "latestQR (run cfg s (Qr (Inr u) # es)) = Some (latest_url u es) \<and>
         latest_url u es \<noteq> [] \<and>
         get_qr (run cfg s (Qr (Inr u) # es)) =
           [Respond 200 (Text
              (nl @ ''    <html>'' @ nl
               @ ''      <body style='' @ dq
               @ ''display:flex;justify-content:center;align-items:center;height:100vh;flex-direction:column;''
               @ dq @ ''>'' @ nl
               @ ''        <h2>Scan QR WhatsApp</h2>'' @ nl
               @ ''        <img src='' @ dq @ latest_url u es @ dq
               @ '' style='' @ dq @ ''width:300px;height:300px;'' @ dq @ '' />'' @ nl
               @ ''      </body>'' @ nl
               @ ''    </html>'' @ nl @ ''  ''))] \<and>
         get_qr (run cfg s (Qr (Inr u) # es)) \<noteq> [Respond 200 (Text ''QR belum tersedia'')]"
proof -
  have "latestQR (fst (handle cfg s (Qr (Inr u)))) = Some u" by (simp add: on_qr_def)
  then have a: "latestQR (run cfg s (Qr (Inr u) # es)) = Some (latest_url u es)"
    by (simp add: run_latestQR del: handle.simps)
  have b: "latest_url u es \<noteq> []" using assms by (rule latest_url_nonempty)
  from a b show ?thesis by (simp add: get_qr_def qr_page_def nl_def del: run.simps)
qed

theorem qr_stays_cached_witness:
  "''data:image/png;base64,AAAA'' \<noteq> [] \<and>
   list_all dataurl_ok
     [Ready, Disconnected ''NAVIGATION'' (Inr ()), ReadyChats (Inr [web_cungs]), ReconnectTimer,
      Qr (Inr ''data:image/png;base64,BBBB''), AuthFailure ''expired'' (Inr ()), KeepAlive] \<and>
   get_qr (run default_config initial_session
     (Qr (Inr ''data:image/png;base64,AAAA'') #
      [Ready, Disconnected ''NAVIGATION'' (Inr ()), ReadyChats (Inr [web_cungs]), ReconnectTimer,
       Qr (Inr ''data:image/png;base64,BBBB''), AuthFailure ''expired'' (Inr ()), KeepAlive]))
   = [Respond 200 (Text
        (nl @ ''    <html>'' @ nl
         @ ''      <body style='' @ dq
         @ ''display:flex;justify-content:center;align-items:center;height:100vh;flex-direction:column;''
         @ dq @ ''>'' @ nl
         @ ''        <h2>Scan QR WhatsApp</h2>'' @ nl
         @ ''        <img src='' @ dq @ ''data:image/png;base64,BBBB'' @ dq
         @ '' style='' @ dq @ ''width:300px;height:300px;'' @ dq @ '' />'' @ nl
         @ ''      </body>'' @ nl
         @ ''    </html>'' @ nl @ ''  ''))]"
proof -
  have a: "''data:image/png;base64,AAAA'' \<noteq> []" by simp
  have b: "\<forall>e \<in> set [Ready, Disconnected ''NAVIGATION'' (Inr ()), ReadyChats (Inr [web_cungs]),
      ReconnectTimer, Qr (Inr ''data:image/png;base64,BBBB''), AuthFailure ''expired'' (Inr ()),
      KeepAlive]. dataurl_ok e" by simp
  show ?thesis
    using a b qr_stays_cached [OF a b, where cfg = default_config and s = initial_session]
    by (simp del: run.simps)
qed

end
